theory Spec2Isabelle
  imports Main
begin

section \<open>The editor extension: vscode-extension/src/extension.ts\<close>

text \<open>
  The extension registers two commands, \<open>copilot-citations.extractCitations\<close> and
  \<open>copilot-citations.generateDocumentation\<close>. Each handler reads
  \<open>vscode.workspace.workspaceFolders\<close>, joins paths with Node's \<open>path.join\<close>, asks
  \<open>fs.existsSync\<close> whether the Python script is there, starts it with
  \<open>child_process.exec\<close> and reports through notification messages. Everything a handler
  does to the outside world is recorded, in order, as a list of actions.
\<close>

subsection \<open>Node's path.join, POSIX flavour\<close>

text \<open>
  \<open>path.join\<close> drops empty arguments, glues the others with a slash and normalises the
  result: empty and \<open>.\<close> segments vanish, a \<open>..\<close> segment removes the segment before it
  (and is kept in front of a relative path when nothing is left to remove), a leading and
  a trailing slash survive.
\<close>

fun splitSlash :: "string \<Rightarrow> string list" where
  "splitSlash [] = [[]]"
| "splitSlash (c # cs) =
     (if c = CHR ''/'' then [] # splitSlash cs
      else (case splitSlash cs of
              [] \<Rightarrow> [[c]]
            | s # ss \<Rightarrow> (c # s) # ss))"

fun joinSlash :: "string list \<Rightarrow> string" where
  "joinSlash [] = []"
| "joinSlash [s] = s"
| "joinSlash (s # t # ss) = s @ CHR ''/'' # joinSlash (t # ss)"

text \<open>One segment of \<open>normalizeString\<close>; \<open>res\<close> holds the segments kept so far, last one first.\<close>

definition normalizeSegment :: "bool \<Rightarrow> string list \<Rightarrow> string \<Rightarrow> string list" where
  "normalizeSegment allowAboveRoot res seg =
     (if seg = [] \<or> seg = ''.'' then res
      else if seg = ''..'' then
        (case res of
           [] \<Rightarrow> (if allowAboveRoot then [''..''] else [])
         | r # rs \<Rightarrow>
             (if r = ''..'' then (if allowAboveRoot then ''..'' # r # rs else r # rs)
              else rs))
      else seg # res)"

definition normalizeString :: "string \<Rightarrow> bool \<Rightarrow> string" where
  "normalizeString p allowAboveRoot =
     joinSlash (rev (foldl (normalizeSegment allowAboveRoot) [] (splitSlash p)))"

definition path_normalize :: "string \<Rightarrow> string" where
  "path_normalize p =
     (if p = [] then ''.''
      else
        (let isAbsolute = (hd p = CHR ''/'');
             trailingSeparator = (last p = CHR ''/'');
             q = normalizeString p (\<not> isAbsolute)
         in if q = [] then
              (if isAbsolute then ''/'' else if trailingSeparator then ''./'' else ''.'')
            else
              (let q' = (if trailingSeparator then q @ ''/'' else q)
               in if isAbsolute then CHR ''/'' # q' else q')))"

definition path_join :: "string list \<Rightarrow> string" where
  "path_join args =
     (let parts = filter (\<lambda>arg. arg \<noteq> []) args
      in if parts = [] then ''.'' else path_normalize (joinSlash parts))"

subsection \<open>The world a handler runs in\<close>

record WorkspaceFolder =
  fsPath :: string

text \<open>What the callback of \<open>exec\<close> receives: \<open>error\<close> is \<open>null\<close> (\<open>None\<close>) or carries its message.\<close>

record ExecResult =
  error :: "string option"
  stdout :: string
  stderr :: string

text \<open>
  \<open>workspaceFolders\<close> is \<open>undefined\<close> (\<open>None\<close>) or an array of folders, which may be empty;
  \<open>existsSync\<close> answers for the file system; \<open>childProcess\<close> is what running a command line
  gives to the callback.
\<close>

record Env =
  workspaceFolders :: "WorkspaceFolder list option"
  existsSync :: "string \<Rightarrow> bool"
  childProcess :: "string \<Rightarrow> ExecResult"

datatype action =
    ShowErrorMessage string
  | ShowInformationMessage string
  | ShowWarningMessage string
  | ExistsSync string
  | Exec string
  | ExecuteCommand string string

text \<open>A handler returns, or throws: reading \<open>.uri\<close> of \<open>workspaceFolders[0]\<close> on an empty array is a TypeError.\<close>

datatype completion = Returned | Threw string

definition isNotification :: "action \<Rightarrow> bool" where
  "isNotification a =
     (case a of
        ShowErrorMessage _ \<Rightarrow> True
      | ShowInformationMessage _ \<Rightarrow> True
      | ShowWarningMessage _ \<Rightarrow> True
      | _ \<Rightarrow> False)"

definition touchesFilesystem :: "action \<Rightarrow> bool" where
  "touchesFilesystem a = (case a of ExistsSync _ \<Rightarrow> True | _ \<Rightarrow> False)"

definition spawnsSubprocess :: "action \<Rightarrow> bool" where
  "spawnsSubprocess a = (case a of Exec _ \<Rightarrow> True | _ \<Rightarrow> False)"

subsection \<open>The command extractCitations\<close>

definition extractCitationsCallback :: "ExecResult \<Rightarrow> action list" where
  "extractCitationsCallback r =
     (case error r of
        Some message \<Rightarrow> [ShowErrorMessage (''Error extracting citations: '' @ message)]
      | None \<Rightarrow>
          (if stderr r \<noteq> []
           then [ShowWarningMessage (''Citations extraction warning: '' @ stderr r)]
           else [])
          @ [ShowInformationMessage (''Citations extracted: '' @ stdout r)])"

definition extractCitationsCommandLine :: "string \<Rightarrow> string \<Rightarrow> string" where
  "extractCitationsCommandLine pythonScriptPath workspacePath =
     ''python \"'' @ pythonScriptPath @ ''\" -d \"'' @ workspacePath @ ''\"''"

text \<open>
  The handler and, after it, the callback of \<open>exec\<close>: the actions of the callback come after
  those of the handler, which has returned by then.
\<close>

definition extractCitations :: "Env \<Rightarrow> completion \<times> action list" where
  "extractCitations env =
     (case workspaceFolders env of
        None \<Rightarrow> (Returned, [ShowErrorMessage ''No workspace folder is open''])
      | Some [] \<Rightarrow> (Threw ''TypeError'', [])
      | Some (folder # _) \<Rightarrow>
          (let workspacePath = fsPath folder;
               pythonScriptPath = path_join [workspacePath, ''src'', ''__main__.py'']
           in if \<not> existsSync env pythonScriptPath then
                (Returned,
                 [ShowInformationMessage ''Extracting Copilot citations...'',
                  ExistsSync pythonScriptPath,
                  ShowErrorMessage (''Python script not found: '' @ pythonScriptPath)])
              else
                (let commandLine = extractCitationsCommandLine pythonScriptPath workspacePath
                 in (Returned,
                     [ShowInformationMessage ''Extracting Copilot citations...'',
                      ExistsSync pythonScriptPath,
                      Exec commandLine]
                     @ extractCitationsCallback (childProcess env commandLine)))))"

subsection \<open>The command generateDocumentation\<close>

definition generateDocumentationCallback :: "string \<Rightarrow> ExecResult \<Rightarrow> action list" where
  "generateDocumentationCallback outputPath r =
     (case error r of
        Some message \<Rightarrow> [ShowErrorMessage (''Error generating documentation: '' @ message)]
      | None \<Rightarrow>
          (if stderr r \<noteq> []
           then [ShowWarningMessage (''Documentation generation warning: '' @ stderr r)]
           else [])
          @ [ShowInformationMessage (''Documentation generated: '' @ outputPath),
             ExecuteCommand ''vscode.open'' outputPath])"

definition generateDocumentationCommandLine :: "string \<Rightarrow> string \<Rightarrow> string \<Rightarrow> string" where
  "generateDocumentationCommandLine pythonScriptPath workspacePath outputPath =
     ''python \"'' @ pythonScriptPath @ ''\" -d \"'' @ workspacePath
       @ ''\" -o \"'' @ outputPath @ ''\"''"

definition generateDocumentation :: "Env \<Rightarrow> completion \<times> action list" where
  "generateDocumentation env =
     (case workspaceFolders env of
        None \<Rightarrow> (Returned, [ShowErrorMessage ''No workspace folder is open''])
      | Some [] \<Rightarrow> (Threw ''TypeError'', [])
      | Some (folder # _) \<Rightarrow>
          (let workspacePath = fsPath folder;
               outputPath = path_join [workspacePath, ''Documentation'', ''citations.md''];
               pythonScriptPath = path_join [workspacePath, ''src'', ''__main__.py'']
           in if \<not> existsSync env pythonScriptPath then
                (Returned,
                 [ShowInformationMessage ''Generating Copilot citations documentation...'',
                  ExistsSync pythonScriptPath,
                  ShowErrorMessage (''Python script not found: '' @ pythonScriptPath)])
              else
                (let commandLine =
                       generateDocumentationCommandLine pythonScriptPath workspacePath outputPath
                 in (Returned,
                     [ShowInformationMessage ''Generating Copilot citations documentation...'',
                      ExistsSync pythonScriptPath,
                      Exec commandLine]
                     @ generateDocumentationCallback outputPath (childProcess env commandLine)))))"

subsection \<open>Paths that are already normal, and sample worlds\<close>

text \<open>
  An absolute path as the editor reports it: a slash before every segment, and every segment
  a plain name (not empty, not \<open>.\<close> or \<open>..\<close>, no slash inside).
\<close>

definition plainSegment :: "string \<Rightarrow> bool" where
  "plainSegment s = (s \<noteq> [] \<and> s \<noteq> ''.'' \<and> s \<noteq> ''..'' \<and> CHR ''/'' \<notin> set s)"

definition absolutePath :: "string list \<Rightarrow> string" where
  "absolutePath segs = CHR ''/'' # joinSlash segs"

text \<open>Two folders are open, the script is there, the run succeeds and writes to both streams.\<close>

definition demoEnv :: Env where
  "demoEnv =
     \<lparr>workspaceFolders = Some [\<lparr>fsPath = ''/w''\<rparr>, \<lparr>fsPath = ''/v''\<rparr>],
      existsSync = (\<lambda>p. p = ''/w/src/__main__.py''),
      childProcess = (\<lambda>c. \<lparr>error = None, stdout = ''2 citations'', stderr = ''skipped 1 file''\<rparr>)\<rparr>"

text \<open>The same world, but for what the script prints.\<close>

definition otherStdoutEnv :: Env where
  "otherStdoutEnv =
     \<lparr>workspaceFolders = Some [\<lparr>fsPath = ''/w''\<rparr>, \<lparr>fsPath = ''/v''\<rparr>],
      existsSync = (\<lambda>p. p = ''/w/src/__main__.py''),
      childProcess =
        (\<lambda>c. \<lparr>error = None, stdout = ''no citations found'', stderr = ''skipped 1 file''\<rparr>)\<rparr>"

text \<open>A workspace is open and holds no folder: \<open>workspaceFolders\<close> is the empty array.\<close>

definition emptyFoldersEnv :: Env where
  "emptyFoldersEnv =
     \<lparr>workspaceFolders = Some [],
      existsSync = (\<lambda>p. True),
      childProcess = (\<lambda>c. \<lparr>error = None, stdout = [], stderr = []\<rparr>)\<rparr>"

section \<open>The citation parser of the specification\<close>

text \<open>
  The extension hands all parsing to the Python entry point \<open>src/__main__.py\<close>, which is
  not among the sources. The parser below follows section 4.2 of the specification.
\<close>

subsection \<open>Data model\<close>

text \<open>Modelled from the spec: the CommentSyntaxDescriptor of section 3, a line-comment
  prefix and a block-comment pair, each optional.\<close>

record CommentSyntaxDescriptor =
  linePrefix :: "string option"
  blockPair :: "(string \<times> string) option"

text \<open>Modelled from the spec: the default descriptor of section 4.1, \<open>//\<close> line comments.\<close>

definition defaultDescriptor :: CommentSyntaxDescriptor where
  "defaultDescriptor = \<lparr>linePrefix = Some ''//'', blockPair = None\<rparr>"

text \<open>Modelled from the spec: the four field labels of section 4.2.\<close>

datatype label = Source | Author | Date | Description

text \<open>Modelled from the spec: the CitationRecord of section 3. The date is kept as written;
  the file path is filled in by the directory scanner and is empty here.\<close>

record CitationRecord =
  sourceUrl :: string
  author :: string
  date :: string
  description :: string
  filePath :: string
  lineNumber :: nat

text \<open>Modelled from the spec: a record with every field empty, opened at a line.\<close>

definition emptyRecord :: "nat \<Rightarrow> CitationRecord" where
  "emptyRecord n =
     \<lparr>sourceUrl = [], author = [], date = [], description = [], filePath = [], lineNumber = n\<rparr>"

text \<open>Modelled from the spec: merging one labelled value into a record; the new value
  replaces the old one.\<close>

fun setField :: "label \<Rightarrow> string \<Rightarrow> CitationRecord \<Rightarrow> CitationRecord" where
  "setField Source v r = r\<lparr>sourceUrl := v\<rparr>"
| "setField Author v r = r\<lparr>author := v\<rparr>"
| "setField Date v r = r\<lparr>date := v\<rparr>"
| "setField Description v r = r\<lparr>description := v\<rparr>"

text \<open>Modelled from the spec: reading the field a label names.\<close>

fun getField :: "label \<Rightarrow> CitationRecord \<Rightarrow> string" where
  "getField Source r = sourceUrl r"
| "getField Author r = author r"
| "getField Date r = date r"
| "getField Description r = description r"

text \<open>Modelled from the spec: the noise test of section 3, a record whose four fields are
  all empty.\<close>

definition allEmpty :: "CitationRecord \<Rightarrow> bool" where
  "allEmpty r = (sourceUrl r = [] \<and> author r = [] \<and> date r = [] \<and> description r = [])"

subsection \<open>Recognising one line\<close>

text \<open>Modelled from the spec: white space inside a line (space, tab, carriage return).\<close>

definition isSpace :: "char \<Rightarrow> bool" where
  "isSpace c = (c = CHR '' '' \<or> c = CHR 0x09 \<or> c = CHR 0x0D)"

text \<open>Modelled from the spec: a value without the white space around it.\<close>

definition trim :: "string \<Rightarrow> string" where
  "trim s = rev (dropWhile isSpace (rev (dropWhile isSpace s)))"

text \<open>Modelled from the spec: internal white space of a description collapsed, every run
  of white space becoming one space.\<close>

fun collapseSpaces :: "bool \<Rightarrow> string \<Rightarrow> string" where
  "collapseSpaces afterSpace [] = []"
| "collapseSpaces afterSpace (c # cs) =
     (if isSpace c then
        (if afterSpace then collapseSpaces True cs else CHR '' '' # collapseSpaces True cs)
      else c # collapseSpaces False cs)"

text \<open>Modelled from the spec: removing a literal marker from the front of a text, if it is
  there.\<close>

fun stripPrefix :: "string \<Rightarrow> string \<Rightarrow> string option" where
  "stripPrefix [] s = Some s"
| "stripPrefix (p # ps) [] = None"
| "stripPrefix (p # ps) (c # cs) = (if p = c then stripPrefix ps cs else None)"

text \<open>Modelled from the spec: the text in front of the first occurrence of a marker, when
  the marker occurs.\<close>

fun beforeMarker :: "string \<Rightarrow> string \<Rightarrow> string option" where
  "beforeMarker marker [] = (if marker = [] then Some [] else None)"
| "beforeMarker marker (c # cs) =
     (case stripPrefix marker (c # cs) of
        Some _ \<Rightarrow> Some []
      | None \<Rightarrow>
          (case beforeMarker marker cs of
             None \<Rightarrow> None
           | Some s \<Rightarrow> Some (c # s)))"

text \<open>Modelled from the spec: stripping the comment prefix or wrapper the descriptor defines
  (sections 4.2 and 6). \<open>inBlock\<close> says whether the line lies inside a block comment that
  an earlier line opened. Inside one, the whole line is comment text, up to the close
  marker if the line holds it. Outside, the line must open with the line-comment prefix
  or with the block-comment open marker, which may stand on a line by itself and then
  opens a block for the lines after it. The result is the comment text, if any, and
  whether the next line lies inside a block comment.\<close>

definition stripComment ::
  "CommentSyntaxDescriptor \<Rightarrow> bool \<Rightarrow> string \<Rightarrow> string option \<times> bool" where
  "stripComment syntax inBlock line =
     (let t = dropWhile isSpace line;
          byLine = (case linePrefix syntax of None \<Rightarrow> None | Some p \<Rightarrow> stripPrefix p t)
      in case blockPair syntax of
           None \<Rightarrow> (byLine, False)
         | Some (opener, closer) \<Rightarrow>
             (if inBlock then
                (case beforeMarker closer t of
                   None \<Rightarrow> (Some t, True)
                 | Some body \<Rightarrow> (Some body, False))
              else
                (case byLine of
                   Some body \<Rightarrow> (Some body, False)
                 | None \<Rightarrow>
                     (case stripPrefix opener t of
                        None \<Rightarrow> (None, False)
                      | Some rest \<Rightarrow>
                          (case beforeMarker closer rest of
                             None \<Rightarrow> (Some rest, True)
                           | Some body \<Rightarrow> (Some body, False))))))"

text \<open>Modelled from the spec: one of the four recognised labels followed by a colon, and
  the text after the colon.\<close>

definition parseField :: "string \<Rightarrow> (label \<times> string) option" where
  "parseField s =
     (case stripPrefix ''Source:'' s of
        Some v \<Rightarrow> Some (Source, v)
      | None \<Rightarrow>
     (case stripPrefix ''Author:'' s of
        Some v \<Rightarrow> Some (Author, v)
      | None \<Rightarrow>
     (case stripPrefix ''Date:'' s of
        Some v \<Rightarrow> Some (Date, v)
      | None \<Rightarrow>
     (case stripPrefix ''Description:'' s of
        Some v \<Rightarrow> Some (Description, v)
      | None \<Rightarrow> None))))"

text \<open>Modelled from the spec: the value of a field as recorded, trimmed, and for a
  description with its internal white space collapsed.\<close>

definition fieldValue :: "label \<Rightarrow> string \<Rightarrow> string" where
  "fieldValue lab v = (if lab = Description then collapseSpaces False (trim v) else trim v)"

text \<open>Modelled from the spec: what a line is to the parser. A citation line carries the tag
  \<open>[CITATION]\<close>, a recognised label and a value; a tagged line with an unrecognised label is
  malformed and ignored (section 7); a blank line is white space only; every other line is
  a non-citation line.\<close>

datatype lineKind =
    CitationLine label string
  | BlankLine
  | MalformedLine
  | OtherLine

definition classifyLine ::
  "CommentSyntaxDescriptor \<Rightarrow> bool \<Rightarrow> string \<Rightarrow> lineKind \<times> bool" where
  "classifyLine syntax inBlock line =
     (if trim line = [] then (BlankLine, inBlock)
      else
        (case stripComment syntax inBlock line of
           (None, next) \<Rightarrow> (OtherLine, next)
         | (Some body, next) \<Rightarrow>
             (case stripPrefix ''[CITATION]'' (dropWhile isSpace body) of
                None \<Rightarrow> (OtherLine, next)
              | Some rest \<Rightarrow>
                  (case parseField (dropWhile isSpace rest) of
                     None \<Rightarrow> (MalformedLine, next)
                   | Some (lab, v) \<Rightarrow> (CitationLine lab (fieldValue lab v), next)))))"

text \<open>Modelled from the spec: the lines of a content classified in order, each one knowing
  whether a block comment is open.\<close>

fun classifyLines :: "CommentSyntaxDescriptor \<Rightarrow> bool \<Rightarrow> string list \<Rightarrow> lineKind list" where
  "classifyLines syntax inBlock [] = []"
| "classifyLines syntax inBlock (l # ls) =
     (case classifyLine syntax inBlock l of
        (k, next) \<Rightarrow> k # classifyLines syntax next ls)"

text \<open>Modelled from the spec: the content cut into lines at every line feed.\<close>

fun splitLines :: "string \<Rightarrow> string list" where
  "splitLines [] = [[]]"
| "splitLines (c # cs) =
     (if c = CHR 0x0A then [] # splitLines cs
      else (case splitLines cs of
              [] \<Rightarrow> [[c]]
            | l # ls \<Rightarrow> (c # l) # ls))"

subsection \<open>Accumulating records\<close>

text \<open>Modelled from the spec: the parser's state, the record that is open (if any) and the
  records emitted so far, in order.\<close>

record ParserState =
  openRecord :: "CitationRecord option"
  emitted :: "CitationRecord list"

text \<open>Modelled from the spec: before the first line no record is open and none is emitted.\<close>

definition initialState :: ParserState where
  "initialState = \<lparr>openRecord = None, emitted = []\<rparr>"

text \<open>Modelled from the spec: closing the open record emits it, unless all its fields are
  empty, in which case it is discarded.\<close>

definition closeRecord :: "ParserState \<Rightarrow> ParserState" where
  "closeRecord st =
     (case openRecord st of
        None \<Rightarrow> st
      | Some r \<Rightarrow>
          \<lparr>openRecord = None,
           emitted = (if allEmpty r then emitted st else emitted st @ [r])\<rparr>)"

text \<open>Modelled from the spec: one line, at line number \<open>n\<close>. A citation line opens a record
  when none is open; a \<open>Source\<close> line that meets an open record with a non-empty source URL
  closes it and starts a new one; any other citation line is merged into the open record.
  A blank line and a malformed line change nothing; any other line closes the open record.\<close>

definition processLine :: "nat \<Rightarrow> ParserState \<Rightarrow> lineKind \<Rightarrow> ParserState" where
  "processLine n st k =
     (case k of
        CitationLine lab v \<Rightarrow>
          (case openRecord st of
             None \<Rightarrow> st\<lparr>openRecord := Some (setField lab v (emptyRecord n))\<rparr>
           | Some r \<Rightarrow>
               (if lab = Source \<and> sourceUrl r \<noteq> []
                then (closeRecord st)\<lparr>openRecord := Some (setField Source v (emptyRecord n))\<rparr>
                else st\<lparr>openRecord := Some (setField lab v r)\<rparr>))
      | BlankLine \<Rightarrow> st
      | MalformedLine \<Rightarrow> st
      | OtherLine \<Rightarrow> closeRecord st)"

text \<open>Modelled from the spec: the scan over the lines, line numbers counting from \<open>n\<close>.\<close>

fun parseLines :: "nat \<Rightarrow> ParserState \<Rightarrow> lineKind list \<Rightarrow> ParserState" where
  "parseLines n st [] = st"
| "parseLines n st (k # ks) = parseLines (Suc n) (processLine n st k) ks"

text \<open>Modelled from the spec: \<open>extractFromString\<close> of section 4.2. Lines are numbered from 1
  and the end of the content closes the record that is still open.\<close>

definition extractFromString :: "string \<Rightarrow> CommentSyntaxDescriptor \<Rightarrow> CitationRecord list" where
  "extractFromString content syntax =
     emitted (closeRecord
       (parseLines 1 initialState (classifyLines syntax False (splitLines content))))"

subsection \<open>Sample contents\<close>

definition cSyntax :: CommentSyntaxDescriptor where
  "cSyntax = \<lparr>linePrefix = Some ''//'', blockPair = Some (''/*'', ''*/'')\<rparr>"

text \<open>A block comment whose open and close markers stand on lines by themselves.\<close>

definition blockComment :: string where
  "blockComment =
     ''/*'' @ [CHR 0x0A] @
     ''[CITATION] Source: https://example.com/answer'' @ [CHR 0x0A] @
     [CHR 0x0A] @
     ''  [CITATION] Author: Jane Doe'' @ [CHR 0x0A] @
     ''*/'' @ [CHR 0x0A] @
     ''int x;''"

text \<open>A record with two author lines.\<close>

definition authorTwice :: string where
  "authorTwice =
     ''// [CITATION] Source: a'' @ [CHR 0x0A] @
     ''// [CITATION] Author: x'' @ [CHR 0x0A] @
     ''// [CITATION] Author: y''"

text \<open>The same, with a second source line right after it.\<close>

definition twoSources :: string where
  "twoSources = authorTwice @ [CHR 0x0A] @ ''// [CITATION] Source: b''"

section \<open>Properties of the editor extension\<close>

subsection \<open>path.join on a path that is already normal\<close>

lemma splitSlash_nonempty: "splitSlash p \<noteq> []"
  by (induction p) (auto split: list.splits)

lemma splitSlash_plain: "CHR ''/'' \<notin> set s \<Longrightarrow> splitSlash s = [s]"
  by (induction s) (auto split: list.splits)

lemma splitSlash_append:
  "CHR ''/'' \<notin> set s \<Longrightarrow> splitSlash (s @ CHR ''/'' # rest) = s # splitSlash rest"
  by (induction s) (auto split: list.splits simp: splitSlash_nonempty)

lemma splitSlash_joinSlash:
  "list_all plainSegment segs \<Longrightarrow> segs \<noteq> [] \<Longrightarrow> splitSlash (joinSlash segs) = segs"
  by (induction segs rule: joinSlash.induct)
     (auto simp: plainSegment_def splitSlash_plain splitSlash_append)

lemma joinSlash_append:
  "xs \<noteq> [] \<Longrightarrow> ys \<noteq> [] \<Longrightarrow> joinSlash (xs @ ys) = joinSlash xs @ CHR ''/'' # joinSlash ys"
  by (induction xs rule: joinSlash.induct) (auto simp: neq_Nil_conv)

lemma foldl_normalizeSegment_plain:
  "list_all plainSegment segs \<Longrightarrow> foldl (normalizeSegment b) acc segs = rev segs @ acc"
  by (induction segs arbitrary: acc) (auto simp: normalizeSegment_def plainSegment_def)

lemma joinSlash_nonempty:
  "list_all plainSegment segs \<Longrightarrow> segs \<noteq> [] \<Longrightarrow> joinSlash segs \<noteq> []"
  by (induction segs rule: joinSlash.induct) (auto simp: plainSegment_def)

lemma last_not_member: "s \<noteq> [] \<Longrightarrow> c \<notin> set s \<Longrightarrow> last s \<noteq> c"
  by (metis last_in_set)

lemma last_joinSlash:
  "list_all plainSegment segs \<Longrightarrow> segs \<noteq> [] \<Longrightarrow> last (joinSlash segs) \<noteq> CHR ''/''"
  by (induction segs rule: joinSlash.induct)
     (auto simp: plainSegment_def joinSlash_nonempty last_not_member)

lemma path_normalize_absolutePath:
  assumes "list_all plainSegment segs" "segs \<noteq> []"
  shows "path_normalize (absolutePath segs) = absolutePath segs"
proof -
  have s: "splitSlash (absolutePath segs) = [] # segs"
    using assms by (simp add: absolutePath_def splitSlash_joinSlash)
  have l: "last (absolutePath segs) \<noteq> CHR ''/''"
    using assms by (simp add: absolutePath_def joinSlash_nonempty last_joinSlash)
  have n: "normalizeString (absolutePath segs) False = joinSlash segs"
    using assms
    by (simp add: normalizeString_def s normalizeSegment_def foldl_normalizeSegment_plain)
  show ?thesis
    using assms l
    by (simp add: path_normalize_def n joinSlash_nonempty Let_def) (simp add: absolutePath_def)
qed

lemma path_join_absolutePath:
  assumes "list_all plainSegment segs" "segs \<noteq> []" "plainSegment a" "plainSegment b"
  shows "path_join [absolutePath segs, a, b] = absolutePath segs @ CHR ''/'' # a @ CHR ''/'' # b"
proof -
  have "joinSlash [absolutePath segs, a, b] = absolutePath (segs @ [a, b])"
    using assms by (simp add: absolutePath_def joinSlash_append)
  moreover have "path_normalize (absolutePath (segs @ [a, b])) = absolutePath (segs @ [a, b])"
    using assms by (intro path_normalize_absolutePath) auto
  moreover have "absolutePath (segs @ [a, b]) = absolutePath segs @ CHR ''/'' # a @ CHR ''/'' # b"
    using assms by (simp add: absolutePath_def joinSlash_append)
  ultimately show ?thesis
    using assms by (simp add: path_join_def absolutePath_def plainSegment_def)
qed

lemma script_path_w: "path_join [''/w'', ''src'', ''__main__.py''] = ''/w/src/__main__.py''"
  by code_simp

lemma output_path_w:
  "path_join [''/w'', ''Documentation'', ''citations.md''] = ''/w/Documentation/citations.md''"
  by code_simp

lemmas handler_defs =
  extractCitations_def generateDocumentation_def Let_def
  extractCitationsCallback_def generateDocumentationCallback_def
  extractCitationsCommandLine_def generateDocumentationCommandLine_def

subsection \<open>What the two commands do\<close>

text \<open>
  C8, as amended. The two commands hold no citation-format or parsing logic. In every
  world each action is a notification, the existence probe of \<open>src/__main__.py\<close> under
  the first workspace folder, the start of the script or (for \<open>generateDocumentation\<close>)
  the opening of the output file. When a workspace folder is open and the script exists
  under the first one, each command does exactly this, in this order: it shows its
  progress message, probes the script, starts the script once as a subprocess
  (\<open>python "<script>" -d "<folder>"\<close>, with \<open>-o "<output>"\<close> for
  \<open>generateDocumentation\<close>), and then reports with notifications. An error of the run is
  shown as an error message that ends with the error's text, unchanged; on a run without
  error a non-empty standard error is shown as a warning that ends with that text,
  unchanged. On success \<open>extractCitations\<close> shows an information message that ends with
  the standard output of the script, unchanged; \<open>generateDocumentation\<close> does not show the
  standard output: it names the fixed output path and opens that file.
\<close>

theorem commands_run_engine_once_and_report:
  fixes env :: Env
  shows
   "(\<forall>a \<in> set (snd (extractCitations env)).
       isNotification a \<or>
       (\<exists>folder others script.
          workspaceFolders env = Some (folder # others) \<and>
          script = path_join [fsPath folder, ''src'', ''__main__.py''] \<and>
          (a = ExistsSync script \<or>
           a = Exec (''python \"'' @ script @ ''\" -d \"'' @ fsPath folder @ ''\"''))))
    \<and>
    (\<forall>a \<in> set (snd (generateDocumentation env)).
       isNotification a \<or>
       (\<exists>folder others script out.
          workspaceFolders env = Some (folder # others) \<and>
          script = path_join [fsPath folder, ''src'', ''__main__.py''] \<and>
          out = path_join [fsPath folder, ''Documentation'', ''citations.md''] \<and>
          (a = ExistsSync script \<or>
           a = Exec (''python \"'' @ script @ ''\" -d \"'' @ fsPath folder
                      @ ''\" -o \"'' @ out @ ''\"'') \<or>
           a = ExecuteCommand ''vscode.open'' out)))
    \<and>
    (\<forall>folder others script cmd r.
       workspaceFolders env = Some (folder # others) \<and>
       script = path_join [fsPath folder, ''src'', ''__main__.py''] \<and>
       existsSync env script \<and>
       cmd = ''python \"'' @ script @ ''\" -d \"'' @ fsPath folder @ ''\"'' \<and>
       r = childProcess env cmd \<longrightarrow>
       extractCitations env =
         (Returned,
          [ShowInformationMessage ''Extracting Copilot citations...'',
           ExistsSync script,
           Exec cmd]
          @ (case error r of
               Some message \<Rightarrow>
                 [ShowErrorMessage (''Error extracting citations: '' @ message)]
             | None \<Rightarrow>
                 (if stderr r = [] then []
                  else [ShowWarningMessage (''Citations extraction warning: '' @ stderr r)])
                 @ [ShowInformationMessage (''Citations extracted: '' @ stdout r)])))
    \<and>
    (\<forall>folder others script out cmd r.
       workspaceFolders env = Some (folder # others) \<and>
       script = path_join [fsPath folder, ''src'', ''__main__.py''] \<and>
       out = path_join [fsPath folder, ''Documentation'', ''citations.md''] \<and>
       existsSync env script \<and>
       cmd = ''python \"'' @ script @ ''\" -d \"'' @ fsPath folder
               @ ''\" -o \"'' @ out @ ''\"'' \<and>
       r = childProcess env cmd \<longrightarrow>
       generateDocumentation env =
         (Returned,
          [ShowInformationMessage ''Generating Copilot citations documentation...'',
           ExistsSync script,
           Exec cmd]
          @ (case error r of
               Some message \<Rightarrow>
                 [ShowErrorMessage (''Error generating documentation: '' @ message)]
             | None \<Rightarrow>
                 (if stderr r = [] then []
                  else [ShowWarningMessage
                          (''Documentation generation warning: '' @ stderr r)])
                 @ [ShowInformationMessage (''Documentation generated: '' @ out),
                    ExecuteCommand ''vscode.open'' out])))"
proof -
  have shape1: "\<forall>a \<in> set (snd (extractCitations env)).
       isNotification a \<or>
       (\<exists>folder others script.
          workspaceFolders env = Some (folder # others) \<and>
          script = path_join [fsPath folder, ''src'', ''__main__.py''] \<and>
          (a = ExistsSync script \<or>
           a = Exec (''python \"'' @ script @ ''\" -d \"'' @ fsPath folder @ ''\"'')))"
    by (auto simp: handler_defs isNotification_def split: option.splits list.splits)
  have shape2: "\<forall>a \<in> set (snd (generateDocumentation env)).
       isNotification a \<or>
       (\<exists>folder others script out.
          workspaceFolders env = Some (folder # others) \<and>
          script = path_join [fsPath folder, ''src'', ''__main__.py''] \<and>
          out = path_join [fsPath folder, ''Documentation'', ''citations.md''] \<and>
          (a = ExistsSync script \<or>
           a = Exec (''python \"'' @ script @ ''\" -d \"'' @ fsPath folder
                      @ ''\" -o \"'' @ out @ ''\"'') \<or>
           a = ExecuteCommand ''vscode.open'' out))"
    by (auto simp: handler_defs isNotification_def split: option.splits list.splits)
  have run1: "\<forall>folder others script cmd r.
       workspaceFolders env = Some (folder # others) \<and>
       script = path_join [fsPath folder, ''src'', ''__main__.py''] \<and>
       existsSync env script \<and>
       cmd = ''python \"'' @ script @ ''\" -d \"'' @ fsPath folder @ ''\"'' \<and>
       r = childProcess env cmd \<longrightarrow>
       extractCitations env =
         (Returned,
          [ShowInformationMessage ''Extracting Copilot citations...'',
           ExistsSync script,
           Exec cmd]
          @ (case error r of
               Some message \<Rightarrow>
                 [ShowErrorMessage (''Error extracting citations: '' @ message)]
             | None \<Rightarrow>
                 (if stderr r = [] then []
                  else [ShowWarningMessage (''Citations extraction warning: '' @ stderr r)])
                 @ [ShowInformationMessage (''Citations extracted: '' @ stdout r)]))"
    by (auto simp: handler_defs split: option.splits)
  have run2: "\<forall>folder others script out cmd r.
       workspaceFolders env = Some (folder # others) \<and>
       script = path_join [fsPath folder, ''src'', ''__main__.py''] \<and>
       out = path_join [fsPath folder, ''Documentation'', ''citations.md''] \<and>
       existsSync env script \<and>
       cmd = ''python \"'' @ script @ ''\" -d \"'' @ fsPath folder
               @ ''\" -o \"'' @ out @ ''\"'' \<and>
       r = childProcess env cmd \<longrightarrow>
       generateDocumentation env =
         (Returned,
          [ShowInformationMessage ''Generating Copilot citations documentation...'',
           ExistsSync script,
           Exec cmd]
          @ (case error r of
               Some message \<Rightarrow>
                 [ShowErrorMessage (''Error generating documentation: '' @ message)]
             | None \<Rightarrow>
                 (if stderr r = [] then []
                  else [ShowWarningMessage
                          (''Documentation generation warning: '' @ stderr r)])
                 @ [ShowInformationMessage (''Documentation generated: '' @ out),
                    ExecuteCommand ''vscode.open'' out]))"
    by (auto simp: handler_defs split: option.splits)
  show ?thesis
    by (intro conjI shape1 shape2 run1 run2)
qed

text \<open>
  The theorem at \<open>demoEnv\<close>: two folders open, the script present under the first, a run
  that succeeds and writes to both streams.
\<close>

theorem commands_run_engine_once_and_report_witness:
  "workspaceFolders demoEnv = Some [\<lparr>fsPath = ''/w''\<rparr>, \<lparr>fsPath = ''/v''\<rparr>]
   \<and> existsSync demoEnv ''/w/src/__main__.py''
   \<and> childProcess demoEnv ''python \"/w/src/__main__.py\" -d \"/w\"''
       = \<lparr>error = None, stdout = ''2 citations'', stderr = ''skipped 1 file''\<rparr>
   \<and> extractCitations demoEnv =
        (Returned,
         [ShowInformationMessage ''Extracting Copilot citations...'',
          ExistsSync ''/w/src/__main__.py'',
          Exec ''python \"/w/src/__main__.py\" -d \"/w\"'',
          ShowWarningMessage ''Citations extraction warning: skipped 1 file'',
          ShowInformationMessage ''Citations extracted: 2 citations''])
   \<and> generateDocumentation demoEnv =
        (Returned,
         [ShowInformationMessage ''Generating Copilot citations documentation...'',
          ExistsSync ''/w/src/__main__.py'',
          Exec ''python \"/w/src/__main__.py\" -d \"/w\" -o \"/w/Documentation/citations.md\"'',
          ShowWarningMessage ''Documentation generation warning: skipped 1 file'',
          ShowInformationMessage ''Documentation generated: /w/Documentation/citations.md'',
          ExecuteCommand ''vscode.open'' ''/w/Documentation/citations.md''])"
proof -
  have folders: "workspaceFolders demoEnv = Some (\<lparr>fsPath = ''/w''\<rparr> # [\<lparr>fsPath = ''/v''\<rparr>])"
    by (simp add: demoEnv_def)
  have script:
    "''/w/src/__main__.py'' = path_join [fsPath \<lparr>fsPath = ''/w''\<rparr>, ''src'', ''__main__.py'']"
    by (simp add: script_path_w)
  have out:
    "''/w/Documentation/citations.md''
       = path_join [fsPath \<lparr>fsPath = ''/w''\<rparr>, ''Documentation'', ''citations.md'']"
    by (simp add: output_path_w)
  have present: "existsSync demoEnv ''/w/src/__main__.py''"
    by (simp add: demoEnv_def)
  have cmd1: "''python \"/w/src/__main__.py\" -d \"/w\"''
      = ''python \"'' @ ''/w/src/__main__.py'' @ ''\" -d \"'' @ fsPath \<lparr>fsPath = ''/w''\<rparr> @ ''\"''"
    by simp
  have cmd2: "''python \"/w/src/__main__.py\" -d \"/w\" -o \"/w/Documentation/citations.md\"''
      = ''python \"'' @ ''/w/src/__main__.py'' @ ''\" -d \"'' @ fsPath \<lparr>fsPath = ''/w''\<rparr>
          @ ''\" -o \"'' @ ''/w/Documentation/citations.md'' @ ''\"''"
    by simp
  have res: "childProcess demoEnv c
      = \<lparr>error = None, stdout = ''2 citations'', stderr = ''skipped 1 file''\<rparr>" for c
    by (simp add: demoEnv_def)
  note all = commands_run_engine_once_and_report [of demoEnv]
  note t1 = all [THEN conjunct2, THEN conjunct2, THEN conjunct1, rule_format]
  note t2 = all [THEN conjunct2, THEN conjunct2, THEN conjunct2, rule_format]
  have e1: "extractCitations demoEnv =
        (Returned,
         [ShowInformationMessage ''Extracting Copilot citations...'',
          ExistsSync ''/w/src/__main__.py'',
          Exec ''python \"/w/src/__main__.py\" -d \"/w\"'',
          ShowWarningMessage ''Citations extraction warning: skipped 1 file'',
          ShowInformationMessage ''Citations extracted: 2 citations''])"
    using t1 [of "\<lparr>fsPath = ''/w''\<rparr>" "[\<lparr>fsPath = ''/v''\<rparr>]" "''/w/src/__main__.py''"
               "''python \"/w/src/__main__.py\" -d \"/w\"''"
               "\<lparr>error = None, stdout = ''2 citations'', stderr = ''skipped 1 file''\<rparr>"]
      folders script present cmd1
    by (simp add: res)
  have e2: "generateDocumentation demoEnv =
        (Returned,
         [ShowInformationMessage ''Generating Copilot citations documentation...'',
          ExistsSync ''/w/src/__main__.py'',
          Exec ''python \"/w/src/__main__.py\" -d \"/w\" -o \"/w/Documentation/citations.md\"'',
          ShowWarningMessage ''Documentation generation warning: skipped 1 file'',
          ShowInformationMessage ''Documentation generated: /w/Documentation/citations.md'',
          ExecuteCommand ''vscode.open'' ''/w/Documentation/citations.md''])"
    using t2 [of "\<lparr>fsPath = ''/w''\<rparr>" "[\<lparr>fsPath = ''/v''\<rparr>]" "''/w/src/__main__.py''"
               "''/w/Documentation/citations.md''"
               "''python \"/w/src/__main__.py\" -d \"/w\" -o \"/w/Documentation/citations.md\"''"
               "\<lparr>error = None, stdout = ''2 citations'', stderr = ''skipped 1 file''\<rparr>"]
      folders script out present cmd2
    by (simp add: res)
  from e1 e2 folders present res show ?thesis by simp
qed

text \<open>
  Where the claim as first stated fails: \<open>generateDocumentation\<close> does not surface the
  success text of the script. At \<open>demoEnv\<close> the run succeeds and prints \<open>2 citations\<close>; no
  action of the command carries that text, and the command does the very same in
  \<open>otherStdoutEnv\<close>, where the script prints something else.
\<close>

theorem generateDocumentation_discards_stdout_counterexample:
  "error (childProcess demoEnv
      ''python \"/w/src/__main__.py\" -d \"/w\" -o \"/w/Documentation/citations.md\"'') = None
   \<and> stdout (childProcess demoEnv
      ''python \"/w/src/__main__.py\" -d \"/w\" -o \"/w/Documentation/citations.md\"'')
       = ''2 citations''
   \<and> stdout (childProcess otherStdoutEnv
      ''python \"/w/src/__main__.py\" -d \"/w\" -o \"/w/Documentation/citations.md\"'')
       = ''no citations found''
   \<and> generateDocumentation demoEnv =
        (Returned,
         [ShowInformationMessage ''Generating Copilot citations documentation...'',
          ExistsSync ''/w/src/__main__.py'',
          Exec ''python \"/w/src/__main__.py\" -d \"/w\" -o \"/w/Documentation/citations.md\"'',
          ShowWarningMessage ''Documentation generation warning: skipped 1 file'',
          ShowInformationMessage ''Documentation generated: /w/Documentation/citations.md'',
          ExecuteCommand ''vscode.open'' ''/w/Documentation/citations.md''])
   \<and> generateDocumentation otherStdoutEnv = generateDocumentation demoEnv"
  by (simp add: generateDocumentation_def demoEnv_def otherStdoutEnv_def Let_def
        script_path_w output_path_w generateDocumentationCommandLine_def
        generateDocumentationCallback_def)

text \<open>
  The guards of the two commands, where they work. When \<open>workspaceFolders\<close> is undefined,
  the command shows the error \<open>No workspace folder is open\<close> and returns, and that is all
  it does. When the script is missing under the first workspace folder, the command shows
  its progress message, asks \<open>fs.existsSync\<close> once for the script, shows the error
  \<open>Python script not found\<close> and returns: no subprocess is started, and the existence
  check is the only access to the file system.
\<close>

lemma guards_stop_before_spawning:
  fixes env :: Env
  shows
   "(workspaceFolders env = None \<longrightarrow>
       extractCitations env = (Returned, [ShowErrorMessage ''No workspace folder is open'']) \<and>
       generateDocumentation env = (Returned, [ShowErrorMessage ''No workspace folder is open'']))
    \<and>
    (workspaceFolders env = Some (folder # others) \<and>
     script = path_join [fsPath folder, ''src'', ''__main__.py''] \<and>
     \<not> existsSync env script \<longrightarrow>
       extractCitations env =
         (Returned,
          [ShowInformationMessage ''Extracting Copilot citations...'',
           ExistsSync script,
           ShowErrorMessage (''Python script not found: '' @ script)]) \<and>
       generateDocumentation env =
         (Returned,
          [ShowInformationMessage ''Generating Copilot citations documentation...'',
           ExistsSync script,
           ShowErrorMessage (''Python script not found: '' @ script)]) \<and>
       filter spawnsSubprocess (snd (extractCitations env)) = [] \<and>
       filter spawnsSubprocess (snd (generateDocumentation env)) = [] \<and>
       filter touchesFilesystem (snd (extractCitations env)) = [ExistsSync script] \<and>
       filter touchesFilesystem (snd (generateDocumentation env)) = [ExistsSync script])"
proof (intro conjI impI)
  assume "workspaceFolders env = None"
  then show "extractCitations env = (Returned, [ShowErrorMessage ''No workspace folder is open''])"
    and "generateDocumentation env = (Returned, [ShowErrorMessage ''No workspace folder is open''])"
    by (simp_all add: extractCitations_def generateDocumentation_def)
next
  assume missing: "workspaceFolders env = Some (folder # others) \<and>
     script = path_join [fsPath folder, ''src'', ''__main__.py''] \<and> \<not> existsSync env script"
  then show e: "extractCitations env =
         (Returned,
          [ShowInformationMessage ''Extracting Copilot citations...'',
           ExistsSync script,
           ShowErrorMessage (''Python script not found: '' @ script)])"
    by (clarsimp simp: extractCitations_def Let_def)
  from missing show g: "generateDocumentation env =
         (Returned,
          [ShowInformationMessage ''Generating Copilot citations documentation...'',
           ExistsSync script,
           ShowErrorMessage (''Python script not found: '' @ script)])"
    by (clarsimp simp: generateDocumentation_def Let_def)
  show "filter spawnsSubprocess (snd (extractCitations env)) = []"
    and "filter touchesFilesystem (snd (extractCitations env)) = [ExistsSync script]"
    by (simp_all add: e spawnsSubprocess_def touchesFilesystem_def)
  show "filter spawnsSubprocess (snd (generateDocumentation env)) = []"
    and "filter touchesFilesystem (snd (generateDocumentation env)) = [ExistsSync script]"
    by (simp_all add: g spawnsSubprocess_def touchesFilesystem_def)
qed

text \<open>
  An empty array of folders passes the guard \<open>!workspaceFolders\<close>; reading \<open>.uri\<close> of its
  missing first element then throws, before any message is shown.
\<close>

lemma empty_folder_array_throws:
  "workspaceFolders env = Some [] \<Longrightarrow>
   extractCitations env = (Threw ''TypeError'', []) \<and>
   generateDocumentation env = (Threw ''TypeError'', [])"
  by (simp add: extractCitations_def generateDocumentation_def)

text \<open>
  C9. Each command is to check its preconditions before doing any work: with no workspace
  folder open it is to show an error message and return. The code misses one such world.
  When a workspace is open that holds no folder, \<open>workspaceFolders\<close> is the empty array;
  the guard \<open>!workspaceFolders\<close> lets it pass, reading \<open>workspaceFolders[0].uri\<close> throws a
  TypeError, and the command ends without having shown any message.
\<close>

theorem empty_folder_array_throws_unreported:
  "workspaceFolders emptyFoldersEnv = Some []
   \<and> extractCitations emptyFoldersEnv = (Threw ''TypeError'', [])
   \<and> generateDocumentation emptyFoldersEnv = (Threw ''TypeError'', [])
   \<and> filter isNotification (snd (extractCitations emptyFoldersEnv)) = []
   \<and> filter isNotification (snd (generateDocumentation emptyFoldersEnv)) = []"
  by (simp add: extractCitations_def generateDocumentation_def emptyFoldersEnv_def)

text \<open>
  C10. \<open>generateDocumentation\<close> scans the first workspace folder only: the other open
  folders change nothing. When the script is there it starts exactly one subprocess,
  \<open>python "<folder>/src/__main__.py" -d "<folder>" -o "<output>"\<close>, where the output is
  \<open>path.join(<folder>, 'Documentation', 'citations.md')\<close> and no other argument (so no
  format flag) is passed; for a folder path that is already normal the output is literally
  \<open><folder>/Documentation/citations.md\<close>. When the subprocess succeeds, the last thing the
  command does is open that file.
\<close>

theorem generateDocumentation_fixed_invocation:
  fixes env :: Env
  assumes folders: "workspaceFolders env = Some (folder # others)"
    and script: "script = path_join [fsPath folder, ''src'', ''__main__.py'']"
    and out: "out = path_join [fsPath folder, ''Documentation'', ''citations.md'']"
    and cmd: "cmd = ''python \"'' @ script @ ''\" -d \"'' @ fsPath folder
                     @ ''\" -o \"'' @ out @ ''\"''"
    and present: "existsSync env script"
  shows "generateDocumentation env
           = generateDocumentation (env\<lparr>workspaceFolders := Some [folder]\<rparr>)
       \<and> filter spawnsSubprocess (snd (generateDocumentation env)) = [Exec cmd]
       \<and> (error (childProcess env cmd) = None \<longrightarrow>
            last (snd (generateDocumentation env)) = ExecuteCommand ''vscode.open'' out)
       \<and> (list_all plainSegment segs \<and> segs \<noteq> [] \<and> fsPath folder = absolutePath segs \<longrightarrow>
            out = fsPath folder @ ''/Documentation/citations.md'')"
proof -
  have first: "generateDocumentation env
      = generateDocumentation (env\<lparr>workspaceFolders := Some [folder]\<rparr>)"
    using folders by (simp add: generateDocumentation_def Let_def)
  have run: "snd (generateDocumentation env) =
      [ShowInformationMessage ''Generating Copilot citations documentation...'',
       ExistsSync script, Exec cmd] @ generateDocumentationCallback out (childProcess env cmd)"
    using folders present
    by (simp add: generateDocumentation_def Let_def script out cmd
          generateDocumentationCommandLine_def)
  have cb: "filter spawnsSubprocess (generateDocumentationCallback out r) = []" for r
    by (simp add: generateDocumentationCallback_def spawnsSubprocess_def split: option.splits)
  have spawn: "filter spawnsSubprocess (snd (generateDocumentation env)) = [Exec cmd]"
    by (simp add: run cb) (simp add: spawnsSubprocess_def)
  have opens: "error (childProcess env cmd) = None \<Longrightarrow>
      last (snd (generateDocumentation env)) = ExecuteCommand ''vscode.open'' out"
    by (simp add: run generateDocumentationCallback_def)
  have literal: "list_all plainSegment segs \<Longrightarrow> segs \<noteq> [] \<Longrightarrow>
      fsPath folder = absolutePath segs \<Longrightarrow>
      out = fsPath folder @ ''/Documentation/citations.md''"
    using path_join_absolutePath [of segs "''Documentation''" "''citations.md''"]
    by (simp add: out plainSegment_def)
  from first spawn opens literal show ?thesis by blast
qed

text \<open>The theorem at \<open>demoEnv\<close>, whose second folder \<open>/v\<close> is never scanned.\<close>

theorem generateDocumentation_fixed_invocation_witness:
  "workspaceFolders demoEnv = Some [\<lparr>fsPath = ''/w''\<rparr>, \<lparr>fsPath = ''/v''\<rparr>]
   \<and> existsSync demoEnv ''/w/src/__main__.py''
   \<and> error (childProcess demoEnv
        ''python \"/w/src/__main__.py\" -d \"/w\" -o \"/w/Documentation/citations.md\"'') = None
   \<and> list_all plainSegment [''w'']
   \<and> generateDocumentation demoEnv
       = generateDocumentation (demoEnv\<lparr>workspaceFolders := Some [\<lparr>fsPath = ''/w''\<rparr>]\<rparr>)
   \<and> filter spawnsSubprocess (snd (generateDocumentation demoEnv)) =
       [Exec ''python \"/w/src/__main__.py\" -d \"/w\" -o \"/w/Documentation/citations.md\"'']
   \<and> last (snd (generateDocumentation demoEnv)) =
       ExecuteCommand ''vscode.open'' ''/w/Documentation/citations.md''"
proof -
  have folders: "workspaceFolders demoEnv = Some (\<lparr>fsPath = ''/w''\<rparr> # [\<lparr>fsPath = ''/v''\<rparr>])"
    by (simp add: demoEnv_def)
  have script:
    "''/w/src/__main__.py'' = path_join [fsPath \<lparr>fsPath = ''/w''\<rparr>, ''src'', ''__main__.py'']"
    by (simp add: script_path_w)
  have out:
    "''/w/Documentation/citations.md''
       = path_join [fsPath \<lparr>fsPath = ''/w''\<rparr>, ''Documentation'', ''citations.md'']"
    by (simp add: output_path_w)
  have cmd: "''python \"/w/src/__main__.py\" -d \"/w\" -o \"/w/Documentation/citations.md\"'' =
      ''python \"'' @ ''/w/src/__main__.py'' @ ''\" -d \"'' @ fsPath \<lparr>fsPath = ''/w''\<rparr>
        @ ''\" -o \"'' @ ''/w/Documentation/citations.md'' @ ''\"''"
    by simp
  have present: "existsSync demoEnv ''/w/src/__main__.py''"
    by (simp add: demoEnv_def)
  have ok: "error (childProcess demoEnv
        ''python \"/w/src/__main__.py\" -d \"/w\" -o \"/w/Documentation/citations.md\"'') = None"
    by (simp add: demoEnv_def)
  have plain: "list_all plainSegment [''w'']"
    by (simp add: plainSegment_def)
  note inst =
    generateDocumentation_fixed_invocation [OF folders script out cmd present, of "[''w'']"]
  from inst ok folders present plain show ?thesis
    by blast
qed

section \<open>Properties of the citation parser\<close>

lemma closeRecord_some:
  "openRecord st = Some r \<Longrightarrow>
   closeRecord st = \<lparr>openRecord = None, emitted = (if allEmpty r then emitted st else emitted st @ [r])\<rparr>"
  by (simp add: closeRecord_def)

lemma parseLines_append:
  "parseLines n st (xs @ ys) = parseLines (n + length xs) (parseLines n st xs) ys"
  by (induction xs arbitrary: n st) simp_all

lemma getField_setField:
  "getField lab (setField lab' v r) = (if lab = lab' then v else getField lab r)"
  by (cases lab; cases lab') simp_all

lemma setField_twice: "setField lab w (setField lab v r) = setField lab w r"
  by (cases lab) simp_all

text \<open>
  C4. Let the lines read so far leave a record open. Then a \<open>Source\<close> line that finds a
  non-empty source URL in it closes that record, which is emitted, and starts a new one
  at its own line; a citation line with any other label is merged into the open record,
  and a second line with the same label overwrites the value of the first. The last two
  parts say the same of \<open>extractFromString\<close> for a content that ends there.
\<close>

theorem source_line_closes_and_other_labels_merge:
  assumes reached: "parseLines 1 initialState ks = st"
    and opened: "openRecord st = Some r"
  shows
   "(sourceUrl r \<noteq> [] \<longrightarrow>
       parseLines 1 initialState (ks @ [CitationLine Source v])
         = \<lparr>openRecord = Some (setField Source v (emptyRecord (Suc (length ks)))),
            emitted = emitted st @ [r]\<rparr>)
    \<and>
    (lab \<noteq> Source \<longrightarrow>
       parseLines 1 initialState (ks @ [CitationLine lab v])
         = st\<lparr>openRecord := Some (setField lab v r)\<rparr> \<and>
       parseLines 1 initialState (ks @ [CitationLine lab v, CitationLine lab w])
         = st\<lparr>openRecord := Some (setField lab w r)\<rparr> \<and>
       getField lab (setField lab w r) = w)
    \<and>
    (sourceUrl r \<noteq> [] \<and>
     classifyLines syntax False (splitLines content) = ks @ [CitationLine Source v] \<longrightarrow>
       extractFromString content syntax
         = emitted st @ [r]
           @ (if v = [] then [] else [setField Source v (emptyRecord (Suc (length ks)))]))
    \<and>
    (lab \<noteq> Source \<and>
     classifyLines syntax False (splitLines content)
       = ks @ [CitationLine lab v, CitationLine lab w] \<longrightarrow>
       extractFromString content syntax
         = emitted st @ (if allEmpty (setField lab w r) then [] else [setField lab w r]))"
proof -
  have after: "parseLines (Suc 0) initialState (ks @ more) = parseLines (Suc (length ks)) st more"
    for more
    using reached by (simp add: parseLines_append)
  have split: "sourceUrl r \<noteq> [] \<Longrightarrow>
      processLine n st (CitationLine Source v)
        = \<lparr>openRecord = Some (setField Source v (emptyRecord n)), emitted = emitted st @ [r]\<rparr>" for n
    using opened by (simp add: processLine_def closeRecord_some allEmpty_def)
  have merge: "lab \<noteq> Source \<Longrightarrow>
      processLine n st (CitationLine lab x) = st\<lparr>openRecord := Some (setField lab x r)\<rparr>" for n x
    using opened by (simp add: processLine_def)
  have again: "lab \<noteq> Source \<Longrightarrow>
      processLine n (st\<lparr>openRecord := Some (setField lab v r)\<rparr>) (CitationLine lab w)
        = st\<lparr>openRecord := Some (setField lab w r)\<rparr>" for n
    by (simp add: processLine_def setField_twice)
  have p1: "sourceUrl r \<noteq> [] \<Longrightarrow>
       parseLines 1 initialState (ks @ [CitationLine Source v])
         = \<lparr>openRecord = Some (setField Source v (emptyRecord (Suc (length ks)))),
            emitted = emitted st @ [r]\<rparr>"
    by (simp add: after split)
  have p2: "lab \<noteq> Source \<Longrightarrow>
       parseLines 1 initialState (ks @ [CitationLine lab v])
         = st\<lparr>openRecord := Some (setField lab v r)\<rparr>"
    by (simp add: after merge)
  have p3: "lab \<noteq> Source \<Longrightarrow>
       parseLines 1 initialState (ks @ [CitationLine lab v, CitationLine lab w])
         = st\<lparr>openRecord := Some (setField lab w r)\<rparr>"
    by (simp add: after merge again)
  have p4: "getField lab (setField lab w r) = w"
    by (simp add: getField_setField)
  have p5: "extractFromString content syntax
         = emitted st @ [r]
           @ (if v = [] then [] else [setField Source v (emptyRecord (Suc (length ks)))])"
    if a: "sourceUrl r \<noteq> []"
      and k: "classifyLines syntax False (splitLines content) = ks @ [CitationLine Source v]"
    using p1 [OF a]
    by (simp add: extractFromString_def k closeRecord_some allEmpty_def emptyRecord_def)
  have p6: "extractFromString content syntax
         = emitted st @ (if allEmpty (setField lab w r) then [] else [setField lab w r])"
    if a: "lab \<noteq> Source"
      and k: "classifyLines syntax False (splitLines content)
                = ks @ [CitationLine lab v, CitationLine lab w]"
    using p3 [OF a] by (simp add: extractFromString_def k closeRecord_some)
  from p1 p2 p3 p4 p5 p6 show ?thesis by blast
qed

lemma authorTwice_kinds:
  "classifyLines defaultDescriptor False (splitLines authorTwice)
     = [CitationLine Source ''a'', CitationLine Author ''x'', CitationLine Author ''y'']"
  by code_simp

lemma twoSources_kinds:
  "classifyLines defaultDescriptor False (splitLines twoSources)
     = [CitationLine Source ''a'', CitationLine Author ''x'', CitationLine Author ''y'',
        CitationLine Source ''b'']"
  by code_simp

text \<open>
  The theorem at \<open>authorTwice\<close> (the second author wins) and at \<open>twoSources\<close> (the second
  source line starts a second record, at line 4).
\<close>

theorem source_line_closes_and_other_labels_merge_witness:
  "parseLines 1 initialState [CitationLine Source ''a'']
     = \<lparr>openRecord = Some (setField Source ''a'' (emptyRecord 1)), emitted = []\<rparr>
   \<and> Author \<noteq> Source
   \<and> extractFromString authorTwice defaultDescriptor
       = [\<lparr>sourceUrl = ''a'', author = ''y'', date = [], description = [],
           filePath = [], lineNumber = 1\<rparr>]
   \<and> parseLines 1 initialState
        [CitationLine Source ''a'', CitationLine Author ''x'', CitationLine Author ''y'']
     = \<lparr>openRecord = Some \<lparr>sourceUrl = ''a'', author = ''y'', date = [], description = [],
                            filePath = [], lineNumber = 1\<rparr>,
        emitted = []\<rparr>
   \<and> extractFromString twoSources defaultDescriptor
       = [\<lparr>sourceUrl = ''a'', author = ''y'', date = [], description = [],
           filePath = [], lineNumber = 1\<rparr>,
          \<lparr>sourceUrl = ''b'', author = [], date = [], description = [],
           filePath = [], lineNumber = 4\<rparr>]"
proof -
  have s1: "parseLines 1 initialState [CitationLine Source ''a'']
     = \<lparr>openRecord = Some (setField Source ''a'' (emptyRecord 1)), emitted = []\<rparr>"
    by (simp add: processLine_def initialState_def)
  have o1: "openRecord \<lparr>openRecord = Some (setField Source ''a'' (emptyRecord 1)),
                       emitted = []\<rparr> = Some (setField Source ''a'' (emptyRecord 1))"
    by simp
  have k1: "classifyLines defaultDescriptor False (splitLines authorTwice)
      = [CitationLine Source ''a''] @ [CitationLine Author ''x'', CitationLine Author ''y'']"
    by (simp add: authorTwice_kinds)
  have a: "extractFromString authorTwice defaultDescriptor
       = [\<lparr>sourceUrl = ''a'', author = ''y'', date = [], description = [],
           filePath = [], lineNumber = 1\<rparr>]"
    using source_line_closes_and_other_labels_merge
      [OF s1 o1, of "''x''" Author "''y''" defaultDescriptor authorTwice] k1
    by (simp add: allEmpty_def emptyRecord_def)
  have s2: "parseLines 1 initialState
        [CitationLine Source ''a'', CitationLine Author ''x'', CitationLine Author ''y'']
     = \<lparr>openRecord = Some \<lparr>sourceUrl = ''a'', author = ''y'', date = [], description = [],
                            filePath = [], lineNumber = 1\<rparr>,
        emitted = []\<rparr>"
    by (simp add: processLine_def initialState_def emptyRecord_def)
  have o2: "openRecord \<lparr>openRecord = Some \<lparr>sourceUrl = ''a'', author = ''y'', date = [],
                            description = [], filePath = [], lineNumber = 1\<rparr>,
        emitted = []\<rparr> = Some \<lparr>sourceUrl = ''a'', author = ''y'', date = [],
                            description = [], filePath = [], lineNumber = 1\<rparr>"
    by simp
  have k2: "classifyLines defaultDescriptor False (splitLines twoSources)
      = [CitationLine Source ''a'', CitationLine Author ''x'', CitationLine Author ''y'']
        @ [CitationLine Source ''b'']"
    by (simp add: twoSources_kinds)
  have b: "extractFromString twoSources defaultDescriptor
       = [\<lparr>sourceUrl = ''a'', author = ''y'', date = [], description = [],
           filePath = [], lineNumber = 1\<rparr>,
          \<lparr>sourceUrl = ''b'', author = [], date = [], description = [],
           filePath = [], lineNumber = 4\<rparr>]"
    using source_line_closes_and_other_labels_merge
      [OF s2 o2, of "''b''" Author "''y''" defaultDescriptor twoSources] k2
    by (simp add: emptyRecord_def)
  from s1 a s2 b show ?thesis by simp
qed

text \<open>
  Citation lines inside a block comment whose markers stand on lines by themselves are
  recognised, a blank line between them included: \<open>blockComment\<close> yields one record,
  opened at line 2.
\<close>

lemma blockComment_kinds:
  "classifyLines cSyntax False (splitLines blockComment)
     = [OtherLine, CitationLine Source ''https://example.com/answer'', BlankLine,
        CitationLine Author ''Jane Doe'', OtherLine, OtherLine]"
  by code_simp

lemma blockComment_record:
  "extractFromString blockComment cSyntax
     = [\<lparr>sourceUrl = ''https://example.com/answer'', author = ''Jane Doe'', date = [],
         description = [], filePath = [], lineNumber = 2\<rparr>]"
  by (simp add: extractFromString_def blockComment_kinds processLine_def closeRecord_def
        initialState_def emptyRecord_def allEmpty_def)

end
